theory Spec2Isabelle
  imports Complex_Main
begin

section \<open>Values of the host language and of the haystack libraries\<close>

text \<open>
  A JavaScript \<^verbatim>\<open>number\<close>. Only its sign and its truthiness are used by the hooks, so
  a finite double is read as the real it denotes (\<^verbatim>\<open>-0\<close> is \<open>Num 0\<close>); the two
  infinities and \<^verbatim>\<open>NaN\<close> are kept apart.
\<close>

datatype number = NaN | NegInfinity | Num real | PosInfinity

text \<open>\<^verbatim>\<open>n > 0\<close>, \<^verbatim>\<open>n <= 0\<close> and the truthiness of a number (\<^verbatim>\<open>n ? .. : ..\<close>, \<^verbatim>\<open>n || ..\<close>).\<close>

fun gt_zero :: "number \<Rightarrow> bool" where
  "gt_zero NaN = False"
| "gt_zero NegInfinity = False"
| "gt_zero (Num r) = (0 < r)"
| "gt_zero PosInfinity = True"

fun le_zero :: "number \<Rightarrow> bool" where
  "le_zero NaN = False"
| "le_zero NegInfinity = True"
| "le_zero (Num r) = (r \<le> 0)"
| "le_zero PosInfinity = False"

fun truthy_number :: "number \<Rightarrow> bool" where
  "truthy_number NaN = False"
| "truthy_number NegInfinity = True"
| "truthy_number (Num r) = (r \<noteq> 0)"
| "truthy_number PosInfinity = True"

text \<open>\<^verbatim>\<open>s ? .. : ..\<close> on an optional string: \<^verbatim>\<open>undefined\<close> and \<^verbatim>\<open>''\<close> are falsy.\<close>

fun truthy_string :: "string option \<Rightarrow> bool" where
  "truthy_string None = False"
| "truthy_string (Some s) = (s \<noteq> [])"

text \<open>
  Haystack values (haystack-core): the kinds the hooks look at. A dict is its list of
  tags, a grid the list of its rows; \<^verbatim>\<open>new HGrid()\<close> is the grid with no rows.
\<close>

datatype HVal =
    HStr string
  | HNum real string
  | HRef string
  | HBool bool
  | HDict "(string \<times> HVal) list"

type_synonym HDict = "(string \<times> HVal) list"
type_synonym HGrid = "HDict list"

definition new_HGrid :: HGrid where
  "new_HGrid = []"

definition dict_get :: "HDict \<Rightarrow> string \<Rightarrow> HVal option" where
  "dict_get d k = map_of d k"

definition dict_has :: "HDict \<Rightarrow> string \<Rightarrow> bool" where
  "dict_has d k = (map_of d k \<noteq> None)"

text \<open>
  JavaScript values passed to the client, and plain objects as the list of their own
  properties in definition order: a later definition of a key overrides an earlier one,
  which is how an object literal with a spread \<^verbatim>\<open>{a: .., ...o, b: ..}\<close> is read.
\<close>

datatype jsval =
    Undefined
  | Null
  | JBool bool
  | JNumber number
  | JString string
  | JVal HVal

type_synonym jsobject = "(string \<times> jsval) list"

definition has_own :: "jsobject \<Rightarrow> string \<Rightarrow> bool" where
  "has_own obj k = (k \<in> fst ` set obj)"

definition get_prop :: "jsobject \<Rightarrow> string \<Rightarrow> jsval" where
  "get_prop obj k = (case map_of (rev obj) k of None \<Rightarrow> Undefined | Some v \<Rightarrow> v)"

text \<open>\<^verbatim>\<open>o?.k\<close> on an optional object, \<^verbatim>\<open>a ?? b\<close>, and \<^verbatim>\<open>...o\<close> inside an object literal.\<close>

definition opt_prop :: "jsobject option \<Rightarrow> string \<Rightarrow> jsval" where
  "opt_prop obj k = (case obj of None \<Rightarrow> Undefined | Some ob \<Rightarrow> get_prop ob k)"

definition nullish :: "jsval \<Rightarrow> bool" where
  "nullish v = (v = Undefined \<or> v = Null)"

definition coalesce :: "jsval \<Rightarrow> jsval \<Rightarrow> jsval" where
  "coalesce a b = (if nullish a then b else a)"

definition spread :: "jsobject option \<Rightarrow> jsobject" where
  "spread obj = (case obj of None \<Rightarrow> [] | Some ob \<Rightarrow> ob)"

fun truthy :: "jsval \<Rightarrow> bool" where
  "truthy Undefined = False"
| "truthy Null = False"
| "truthy (JBool b) = b"
| "truthy (JNumber n) = truthy_number n"
| "truthy (JString s) = (s \<noteq> [])"
| "truthy (JVal v) = True"

text \<open>The \<^verbatim>\<open>.value\<close> of a haystack value (a dict answers with its tag of that name).\<close>

fun value_of :: "HVal \<Rightarrow> jsval" where
  "value_of (HStr s) = JString s"
| "value_of (HNum r u) = JNumber (Num r)"
| "value_of (HRef s) = JString s"
| "value_of (HBool b) = JBool b"
| "value_of (HDict d) = (case map_of d ''value'' of None \<Rightarrow> Undefined | Some v \<Rightarrow> JVal v)"

text \<open>
  The ids a watch is made for (\<^verbatim>\<open>Ids\<close> of haystack-nclient): an id string, a haystack
  value (a ref or a dict), an array of them, or a grid. Only the empty string is falsy.
\<close>

datatype Ids =
    IdString string
  | IdVal HVal
  | IdArray "HVal list"
  | IdGrid HGrid

fun falsy_ids :: "Ids option \<Rightarrow> bool" where
  "falsy_ids None = True"
| "falsy_ids (Some (IdString s)) = (s = [])"
| "falsy_ids (Some _) = False"

text \<open>
  The calls the hooks make on the external \<^verbatim>\<open>Client\<close> and on the \<^verbatim>\<open>Watch\<close> objects it
  makes. A watch is named by the number of the effect run whose \<^verbatim>\<open>make\<close> created it:
  every run of the effect calls \<^verbatim>\<open>make\<close> at most once.
\<close>

datatype call =
    GetGrid
  | OpsRead string
  | RecordReadByFilter string
  | RecordReadByIds "string list"
  | ExtEval string
  | OpsPointWrite jsobject
  | WatchMake bool string Ids
  | WatchClose nat
  | WatchSetPollRate nat number
  | WatchChanged nat
  | WatchGetGrid nat

text \<open>
  What the body of a one-line \<^verbatim>\<open>async\<close> function evaluates to: a value it resolves to
  at once, or the promise of one client call.
\<close>

datatype 'a awaited = Resolve 'a | Request call

section \<open>The query functions of the one-shot hooks (client.ts)\<close>

text \<open>
  \<^verbatim>\<open>useReadByFilter\<close>: \<^verbatim>\<open>filter ? client.ops.read(filter) : new HGrid()\<close> when only ops
  are used, \<^verbatim>\<open>filter ? client.record.readByFilter(filter) : new HGrid()\<close> otherwise.
\<close>

definition useReadByFilter_getGrid :: "bool \<Rightarrow> string \<Rightarrow> HGrid awaited" where
  "useReadByFilter_getGrid ops filter' =
     (if ops
      then (if filter' \<noteq> [] then Request (OpsRead filter') else Resolve new_HGrid)
      else (if filter' \<noteq> [] then Request (RecordReadByFilter filter') else Resolve new_HGrid))"

text \<open>
  \<^verbatim>\<open>useReadByIds\<close>. With ops only, a filter is built from the ids (by the external
  \<^verbatim>\<open>HFilterBuilder\<close>, the parameter \<open>build\<close>; no builder is made for an empty list, so
  the filter is \<^verbatim>\<open>builder?.build() ?? ''\<close>) and handed to \<^verbatim>\<open>useReadByFilter\<close>. Otherwise
  \<^verbatim>\<open>ids.length ? client.record.readByIds(ids) : new HGrid()\<close>.
\<close>

definition useReadByIds_getGrid :: "(string list \<Rightarrow> string) \<Rightarrow> bool \<Rightarrow> string list \<Rightarrow> HGrid awaited" where
  "useReadByIds_getGrid build ops ids =
     (if ops
      then useReadByFilter_getGrid ops (if ids = [] then [] else build ids)
      else (if length ids \<noteq> 0 then Request (RecordReadByIds ids) else Resolve new_HGrid))"

text \<open>Whether an async body makes a client call at all.\<close>

fun makes_request :: "'a awaited \<Rightarrow> bool" where
  "makes_request (Resolve x) = False"
| "makes_request (Request c) = True"

section \<open>Point writes (hooks/useHaystackPoint.ts)\<close>

text \<open>
  \<^verbatim>\<open>useWriteHaystackPoint(id, generalOptions)\<close>: no writer without an id; otherwise the
  writer passes to \<^verbatim>\<open>client.ops.pointWrite\<close> the object
  \<^verbatim>\<open>{id, level: generalOptions?.level ?? 17, who: generalOptions?.who,
  duration: generalOptions?.duration, ...options, val}\<close>.
\<close>

definition useWriteHaystackPoint ::
  "jsval \<Rightarrow> jsobject option \<Rightarrow> (jsval \<Rightarrow> jsobject option \<Rightarrow> call) option" where
  "useWriteHaystackPoint pid generalOptions =
     (if truthy pid
      then Some (\<lambda>val options.
        OpsPointWrite
          ([(''id'', pid),
            (''level'', coalesce (opt_prop generalOptions ''level'') (JNumber (Num 17))),
            (''who'', opt_prop generalOptions ''who''),
            (''duration'', opt_prop generalOptions ''duration'')]
           @ spread options
           @ [(''val'', val)]))
      else None)"

text \<open>The object a call was given (empty for the calls that take none).\<close>

fun request_of :: "call \<Rightarrow> jsobject" where
  "request_of (OpsPointWrite obj) = obj"
| "request_of _ = []"

section \<open>The result cell, effect closures and asynchronous functions\<close>

text \<open>
  \<^verbatim>\<open>GridData\<close> (client.ts) and \<^verbatim>\<open>WatchData\<close> (watch.ts) are the same interface: the
  object a hook keeps in its ref and returns to its caller. \<^verbatim>\<open>Error\<close> is read as its
  message.
\<close>

record GridData =
  grid :: HGrid
  isLoading :: bool
  loads :: nat
  error :: "string option"

text \<open>
  An \<^verbatim>\<open>async\<close> function runs until it awaits, and is resumed when what it awaits
  settles. Its promise is pending at one of the awaits of the hooks, or settled: fulfilled
  with \<^verbatim>\<open>undefined\<close> or with the watch its run made, or rejected.
\<close>

datatype await_point = AwaitGetGrid | AwaitRead | AwaitMake | AwaitClose

datatype settled = Undef | TheWatch

datatype promise = NotRun | Pending await_point | Fulfilled settled | Rejected string

text \<open>How a block of statements completes, and how a stretch of a \<^verbatim>\<open>try\<close> block ends.\<close>

datatype completion = Normal | Return settled | Throw string

datatype stretch_end = Suspend await_point | Complete completion

text \<open>
  What one run of a hook's effect closes over: its \<^verbatim>\<open>cancel\<close> flag, the \<^verbatim>\<open>updates\<close>
  variable of the render that created it (\<^verbatim>\<open>let [updates, setUpdates] = useState(0)\<close>,
  which \<^verbatim>\<open>forceUpdate\<close> increments), and the promise of its async function.
\<close>

record effect =
  cancel :: bool
  updates :: nat
  promise :: promise

text \<open>
  The state of one hook instance: the result cell, the React state \<^verbatim>\<open>updates\<close>, the
  effect runs so far (numbered from 0), the calls made on the client and its watches in
  the order they were made, and the clock that \<^verbatim>\<open>new Date()\<close> reads.
\<close>

record 'e hook =
  data :: GridData
  updatesState :: nat
  effects :: "nat \<Rightarrow> 'e"
  started :: nat
  calls :: "call list"
  date :: string

definition emit :: "call \<Rightarrow> 'e hook \<Rightarrow> 'e hook" where
  "emit c s = s\<lparr>calls := calls s @ [c]\<rparr>"

definition set_promise :: "nat \<Rightarrow> promise \<Rightarrow> ('a effect_scheme) hook \<Rightarrow> ('a effect_scheme) hook" where
  "set_promise i p s = s\<lparr>effects := (effects s)(i := (effects s i)\<lparr>promise := p\<rparr>)\<rparr>"

text \<open>
  \<^verbatim>\<open>const forceUpdate = (): void => setUpdates(++updates)\<close>, as closed over by run \<open>i\<close>
  of the effect: the variable of that closure is incremented and the state is set to it.
\<close>

definition forceUpdate :: "nat \<Rightarrow> ('a effect_scheme) hook \<Rightarrow> ('a effect_scheme) hook" where
  "forceUpdate i s =
     (let u = Suc (updates (effects s i))
      in s\<lparr>effects := (effects s)(i := (effects s i)\<lparr>updates := u\<rparr>), updatesState := u\<rparr>)"

text \<open>
  \<^verbatim>\<open>try { body } catch (err) { handler } finally { finalizer }\<close> as the last statement
  but a \<^verbatim>\<open>return undefined\<close> of an async function, run from the start or from an await
  of \<open>body\<close>. When the body suspends again the promise stays pending. Otherwise a throw
  of the body goes to the handler, the finalizer runs, an abrupt completion of the
  finalizer replaces the one before it, and the promise settles: fulfilled with the
  returned value (\<^verbatim>\<open>undefined\<close> after a normal completion), or rejected.
\<close>

definition async_resume ::
  "(('a effect_scheme) hook \<Rightarrow> stretch_end \<times> ('a effect_scheme) hook)
   \<Rightarrow> (string \<Rightarrow> ('a effect_scheme) hook \<Rightarrow> completion \<times> ('a effect_scheme) hook)
   \<Rightarrow> (('a effect_scheme) hook \<Rightarrow> completion \<times> ('a effect_scheme) hook)
   \<Rightarrow> nat \<Rightarrow> ('a effect_scheme) hook \<Rightarrow> ('a effect_scheme) hook" where
  "async_resume body handler finalizer i s =
     (case body s of
        (Suspend p, s1) \<Rightarrow> set_promise i (Pending p) s1
      | (Complete c1, s1) \<Rightarrow>
          (let (c2, s2) = (case c1 of Throw e \<Rightarrow> handler e s1 | _ \<Rightarrow> (c1, s1));
               (c3, s3) = finalizer s2;
               c4 = (case c3 of Normal \<Rightarrow> c2 | _ \<Rightarrow> c3)
           in set_promise i
                (case c4 of
                   Normal \<Rightarrow> Fulfilled Undef
                 | Return v \<Rightarrow> Fulfilled v
                 | Throw e \<Rightarrow> Rejected e) s3))"

definition is_pending :: "promise \<Rightarrow> bool" where
  "is_pending p = (case p of Pending a \<Rightarrow> True | _ \<Rightarrow> False)"

section \<open>useGrid (client.ts)\<close>

text \<open>
  The initial result cell: \<^verbatim>\<open>{ grid: new HGrid(), isLoading: true, loads: 0 }\<close>, and a
  hook instance before its first effect.
\<close>

definition initial_data :: GridData where
  "initial_data = \<lparr>grid = new_HGrid, isLoading = True, loads = 0, error = None\<rparr>"

definition useGrid_init :: "effect hook" where
  "useGrid_init =
     \<lparr>data = initial_data, updatesState = 0,
      effects = (\<lambda>i. \<lparr>cancel = False, updates = 0, promise = NotRun\<rparr>),
      started = 0, calls = [], date = []\<rparr>"

text \<open>
  \<^verbatim>\<open>doGetGrid\<close>, from its start to \<^verbatim>\<open>await getGrid()\<close>. \<open>thrown\<close> is the error
  \<^verbatim>\<open>getGrid()\<close> throws instead of returning a promise, if it does.
\<close>

definition doGetGrid_start :: "string option \<Rightarrow> nat \<Rightarrow> effect hook \<Rightarrow> stretch_end \<times> effect hook" where
  "doGetGrid_start thrown i s =
     (let wasLoading = isLoading (data s);
          s1 = s\<lparr>data := (data s)\<lparr>isLoading := True\<rparr>\<rparr>;
          s2 = (if \<not> wasLoading then forceUpdate i s1 else s1);
          s3 = emit GetGrid s2
      in case thrown of
           Some err \<Rightarrow> (Complete (Throw err), s3)
         | None \<Rightarrow> (Suspend AwaitGetGrid, s3))"

text \<open>
  The rest of the \<^verbatim>\<open>try\<close> block once \<^verbatim>\<open>getGrid()\<close> has settled:
  \<^verbatim>\<open>if (!cancel) { gridData.grid = grid }\<close>.
\<close>

definition doGetGrid_resume :: "string + HGrid \<Rightarrow> nat \<Rightarrow> effect hook \<Rightarrow> stretch_end \<times> effect hook" where
  "doGetGrid_resume r i s =
     (case r of
        Inl err \<Rightarrow> (Complete (Throw err), s)
      | Inr g \<Rightarrow>
          (Complete Normal,
           if \<not> cancel (effects s i) then s\<lparr>data := (data s)\<lparr>grid := g\<rparr>\<rparr> else s))"

text \<open>\<^verbatim>\<open>catch (err) { if (!cancel) { gridData.error = err as Error } }\<close>\<close>

definition doGetGrid_catch :: "nat \<Rightarrow> string \<Rightarrow> effect hook \<Rightarrow> completion \<times> effect hook" where
  "doGetGrid_catch i err s =
     (Normal, if \<not> cancel (effects s i) then s\<lparr>data := (data s)\<lparr>error := Some err\<rparr>\<rparr> else s)"

text \<open>
  \<^verbatim>\<open>finally { if (!cancel) { ++gridData.loads; gridData.isLoading = false }
  forceUpdate() }\<close>
\<close>

definition doGetGrid_finally :: "nat \<Rightarrow> effect hook \<Rightarrow> completion \<times> effect hook" where
  "doGetGrid_finally i s =
     (Normal,
      forceUpdate i
        (if \<not> cancel (effects s i)
         then s\<lparr>data := (data s)\<lparr>loads := Suc (loads (data s)), isLoading := False\<rparr>\<rparr>
         else s))"

text \<open>
  The function the effect returns:
  \<^verbatim>\<open>cancel = true; gridData.isLoading = false; gridData.error = undefined\<close>.
\<close>

definition useGrid_cleanup :: "nat \<Rightarrow> effect hook \<Rightarrow> effect hook" where
  "useGrid_cleanup i s =
     s\<lparr>effects := (effects s)(i := (effects s i)\<lparr>cancel := True\<rparr>),
       data := (data s)\<lparr>isLoading := False, error := None\<rparr>\<rparr>"

text \<open>
  The effect itself: \<^verbatim>\<open>let cancel = false\<close>, then \<^verbatim>\<open>doGetGrid()\<close> is called. The new
  closure gets the next number and the \<^verbatim>\<open>updates\<close> of the render being committed.
\<close>

definition useGrid_effect :: "string option \<Rightarrow> effect hook \<Rightarrow> effect hook" where
  "useGrid_effect thrown s =
     (let i = started s;
          s1 = s\<lparr>effects := (effects s)(i := \<lparr>cancel = False, updates = updatesState s, promise = NotRun\<rparr>),
                 started := Suc i\<rparr>
      in async_resume (doGetGrid_start thrown i) (doGetGrid_catch i) (doGetGrid_finally i) i s1)"

text \<open>
  What happens to a hook instance. React commits a render whose dependencies changed
  (or the first render): it calls the function the last effect returned, if there is one
  that it has not called yet, and then runs the effect. React unmounts the component:
  it calls that function. The promise \<^verbatim>\<open>getGrid()\<close> returned to run \<open>i\<close> settles:
  \<^verbatim>\<open>doGetGrid\<close> resumes, if that run is waiting for it.
\<close>

datatype grid_event =
    GCommit "string option"
  | GUnmount
  | GetGridSettled nat "string + HGrid"

definition last_cleanup :: "(nat \<Rightarrow> 's \<Rightarrow> 's) \<Rightarrow> (nat \<Rightarrow> 's \<Rightarrow> bool) \<Rightarrow> nat \<Rightarrow> 's \<Rightarrow> 's" where
  "last_cleanup cleanup cancelled n s =
     (case n of 0 \<Rightarrow> s | Suc j \<Rightarrow> if cancelled j s then s else cleanup j s)"

fun useGrid_step :: "effect hook \<Rightarrow> grid_event \<Rightarrow> effect hook" where
  "useGrid_step s (GCommit thrown) =
     useGrid_effect thrown (last_cleanup useGrid_cleanup (\<lambda>j s. cancel (effects s j)) (started s) s)"
| "useGrid_step s GUnmount =
     last_cleanup useGrid_cleanup (\<lambda>j s. cancel (effects s j)) (started s) s"
| "useGrid_step s (GetGridSettled i r) =
     (if promise (effects s i) = Pending AwaitGetGrid
      then async_resume (doGetGrid_resume r i) (doGetGrid_catch i) (doGetGrid_finally i) i s
      else s)"

definition useGrid_run :: "grid_event list \<Rightarrow> effect hook" where
  "useGrid_run evs = foldl useGrid_step useGrid_init evs"

section \<open>useWatch (watch.ts, the hook that keeps its result in a ref)\<close>

text \<open>
  The arguments of \<^verbatim>\<open>useWatch({ filter, ids, display, pollRate })\<close>, each optional, and
  the closure of one run of its effect: besides the flag, the counter and the promise of
  \<^verbatim>\<open>open()\<close>, the arguments of the render, \<^verbatim>\<open>pollRate\<close> after its default, the \<^verbatim>\<open>ops\<close>
  flag of the context, and whether the \<^verbatim>\<open>close()\<close> of the cleanup is waiting for the
  promise.
\<close>

record useWatch_args =
  filter_arg :: "string option"
  ids_arg :: "Ids option"
  display_arg :: "string option"
  pollRate_arg :: "number option"

record watch_effect = effect +
  args :: useWatch_args
  pollRate :: number
  ops :: bool
  closing :: bool

text \<open>\<^verbatim>\<open>a || b\<close> on strings, and the name the watch is made under:
  \<^verbatim>\<open>display || filter || `useWatch@${new Date().toISOString()}`\<close>.\<close>

definition or_string :: "string option \<Rightarrow> string \<Rightarrow> string" where
  "or_string a b = (case a of None \<Rightarrow> b | Some x \<Rightarrow> if x \<noteq> [] then x else b)"

definition watch_label :: "useWatch_args \<Rightarrow> string \<Rightarrow> string" where
  "watch_label a now =
     or_string (display_arg a) (or_string (filter_arg a) (''useWatch@'' @ now))"

text \<open>
  \<^verbatim>\<open>await (ops ? client.ops.watch : client.watch).make(.., ids)\<close>: the call is made and
  \<^verbatim>\<open>open\<close> waits. Nothing looks at \<open>x\<close>, the ids, before the call.
\<close>

definition open_make ::
  "Ids \<Rightarrow> nat \<Rightarrow> ('a watch_effect_scheme) hook \<Rightarrow> stretch_end \<times> ('a watch_effect_scheme) hook" where
  "open_make x i s =
     (Suspend AwaitMake,
      emit (WatchMake (ops (effects s i)) (watch_label (args (effects s i)) (date s)) x) s)"

text \<open>
  The read a filter is resolved by:
  \<^verbatim>\<open>ops ? client.ops.read(filter) : client.record.readByFilter(filter)\<close>.
\<close>

definition open_read ::
  "string \<Rightarrow> nat \<Rightarrow> ('a watch_effect_scheme) hook \<Rightarrow> stretch_end \<times> ('a watch_effect_scheme) hook" where
  "open_read f i s =
     (Suspend AwaitRead,
      emit (if ops (effects s i) then OpsRead f else RecordReadByFilter f) s)"

text \<open>
  Inside \<^verbatim>\<open>if (!ids)\<close>, once \<^verbatim>\<open>ids\<close> has been assigned the grid \<open>g\<close>:
  \<^verbatim>\<open>if (cancel) { return }  watchData.grid = ids; watchData.isLoading = false;
  forceUpdate()\<close>, and on to \<^verbatim>\<open>make\<close>.
\<close>

definition open_resolved ::
  "HGrid \<Rightarrow> nat \<Rightarrow> watch_effect hook \<Rightarrow> stretch_end \<times> watch_effect hook" where
  "open_resolved g i s =
     (if cancel (effects s i) then (Complete (Return Undef), s)
      else open_make (IdGrid g) i
             (forceUpdate i (s\<lparr>data := (data s)\<lparr>grid := g, isLoading := False\<rparr>\<rparr>)))"

text \<open>
  \<^verbatim>\<open>open\<close> from its start: the loading flag, then \<^verbatim>\<open>if (!ids) { ids = filter ? await
  (..read..) : new HGrid() .. }\<close>. Without a filter nothing is awaited there.
\<close>

definition open_start :: "nat \<Rightarrow> watch_effect hook \<Rightarrow> stretch_end \<times> watch_effect hook" where
  "open_start i s =
     (let wasLoading = isLoading (data s);
          s1 = s\<lparr>data := (data s)\<lparr>isLoading := True\<rparr>\<rparr>;
          s2 = (if \<not> wasLoading then forceUpdate i s1 else s1);
          a = args (effects s2 i)
      in if falsy_ids (ids_arg a)
         then (if truthy_string (filter_arg a)
               then open_read (or_string (filter_arg a) []) i s2
               else open_resolved new_HGrid i s2)
         else (case ids_arg a of
                 Some x \<Rightarrow> open_make x i s2
               | None \<Rightarrow> open_resolved new_HGrid i s2))"

definition open_after_read ::
  "string + HGrid \<Rightarrow> nat \<Rightarrow> watch_effect hook \<Rightarrow> stretch_end \<times> watch_effect hook" where
  "open_after_read r i s =
     (case r of
        Inl err \<Rightarrow> (Complete (Throw err), s)
      | Inr g \<Rightarrow> open_resolved g i s)"

text \<open>
  After \<^verbatim>\<open>make\<close>, which made a watch whose grid is \<open>g\<close>:
  \<^verbatim>\<open>if (cancel) { await watch.close(); return watch }
  watch.pollRate = pollRate > 0 ? pollRate : DEFAULT_POLL_RATE_SECS;
  watch.changed({ callback: forceUpdate }); watchData.grid = watch.grid; return watch\<close>.
  The constant of haystack-nclient is a parameter.
\<close>

definition open_after_make ::
  "number \<Rightarrow> string + HGrid \<Rightarrow> nat \<Rightarrow> watch_effect hook \<Rightarrow> stretch_end \<times> watch_effect hook" where
  "open_after_make DEFAULT_POLL_RATE_SECS r i s =
     (case r of
        Inl err \<Rightarrow> (Complete (Throw err), s)
      | Inr g \<Rightarrow>
          if cancel (effects s i) then (Suspend AwaitClose, emit (WatchClose i) s)
          else
            (let p = pollRate (effects s i);
                 s1 = emit (WatchSetPollRate i (if gt_zero p then p else DEFAULT_POLL_RATE_SECS)) s;
                 s2 = emit (WatchChanged i) s1;
                 s3 = emit (WatchGetGrid i) s2
             in (Complete (Return TheWatch), s3\<lparr>data := (data s3)\<lparr>grid := g\<rparr>\<rparr>)))"

text \<open>After \<^verbatim>\<open>await watch.close()\<close> in the cancelled branch: \<^verbatim>\<open>return watch\<close>.\<close>

definition open_after_close ::
  "string + unit \<Rightarrow> nat \<Rightarrow> ('a watch_effect_scheme) hook \<Rightarrow> stretch_end \<times> ('a watch_effect_scheme) hook" where
  "open_after_close r i s =
     (case r of
        Inl err \<Rightarrow> (Complete (Throw err), s)
      | Inr u \<Rightarrow> (Complete (Return TheWatch), s))"

text \<open>\<^verbatim>\<open>catch (err) { if (!cancel) { watchData.error = err as Error } }\<close>\<close>

definition open_catch ::
  "nat \<Rightarrow> string \<Rightarrow> ('a watch_effect_scheme) hook \<Rightarrow> completion \<times> ('a watch_effect_scheme) hook" where
  "open_catch i err s =
     (Normal, if \<not> cancel (effects s i) then s\<lparr>data := (data s)\<lparr>error := Some err\<rparr>\<rparr> else s)"

text \<open>
  \<^verbatim>\<open>finally { if (!cancel) { watchData.isLoading = false; ++watchData.loads }
  forceUpdate() }\<close>
\<close>

definition open_finally :: "nat \<Rightarrow> watch_effect hook \<Rightarrow> completion \<times> watch_effect hook" where
  "open_finally i s =
     (Normal,
      forceUpdate i
        (if \<not> cancel (effects s i)
         then s\<lparr>data := (data s)\<lparr>isLoading := False, loads := Suc (loads (data s))\<rparr>\<rparr>
         else s))"

text \<open>
  The \<^verbatim>\<open>close()\<close> of the cleanup, after its \<^verbatim>\<open>await promise\<close>: \<^verbatim>\<open>watch?.close()\<close>. A
  rejected promise makes the await throw, and nothing is closed.
\<close>

definition close_resume :: "nat \<Rightarrow> ('a watch_effect_scheme) hook \<Rightarrow> ('a watch_effect_scheme) hook" where
  "close_resume i s =
     (let s1 = s\<lparr>effects := (effects s)(i := (effects s i)\<lparr>closing := False\<rparr>)\<rparr>
      in case promise (effects s i) of
           Fulfilled TheWatch \<Rightarrow> emit (WatchClose i) s1
         | _ \<Rightarrow> s1)"

text \<open>
  The function the effect returns: \<^verbatim>\<open>cancel = true; watchData.isLoading = false;
  watchData.error = undefined; close()\<close>. \<^verbatim>\<open>close\<close> runs to its \<^verbatim>\<open>await promise\<close>
  and waits there, also when the promise of \<^verbatim>\<open>open\<close> has already settled.
\<close>

definition useWatch_cleanup :: "nat \<Rightarrow> ('a watch_effect_scheme) hook \<Rightarrow> ('a watch_effect_scheme) hook" where
  "useWatch_cleanup i s =
     s\<lparr>effects := (effects s)(i := (effects s i)\<lparr>cancel := True, closing := True\<rparr>),
       data := (data s)\<lparr>isLoading := False, error := None\<rparr>\<rparr>"

text \<open>
  A waiting \<^verbatim>\<open>close()\<close> goes on once the promise of \<^verbatim>\<open>open\<close> has settled and what is
  running has run to its end: after \<^verbatim>\<open>open\<close> has settled the promise, and, for a
  promise that had settled before the cleanup, after the cleanup and the effect React
  runs next, whose \<^verbatim>\<open>open\<close> has by then made its first call.
\<close>

definition settle_close :: "nat \<Rightarrow> ('a watch_effect_scheme) hook \<Rightarrow> ('a watch_effect_scheme) hook" where
  "settle_close i s =
     (if closing (effects s i) \<and> \<not> is_pending (promise (effects s i))
      then close_resume i s else s)"

definition close_waiting :: "nat \<Rightarrow> ('a watch_effect_scheme) hook \<Rightarrow> ('a watch_effect_scheme) hook" where
  "close_waiting n s = (case n of 0 \<Rightarrow> s | Suc j \<Rightarrow> settle_close j s)"

text \<open>\<^verbatim>\<open>open\<close> run from its start or from an await, and the waiting \<^verbatim>\<open>close()\<close> after it.\<close>

definition open_resume ::
  "(watch_effect hook \<Rightarrow> stretch_end \<times> watch_effect hook) \<Rightarrow> nat \<Rightarrow> watch_effect hook \<Rightarrow> watch_effect hook" where
  "open_resume body i s =
     settle_close i (async_resume body (open_catch i) (open_finally i) i s)"

text \<open>
  The effect: \<^verbatim>\<open>let cancel = false\<close>, then \<^verbatim>\<open>const promise = open()\<close>. The parameter
  default \<^verbatim>\<open>pollRate = DEFAULT_POLL_RATE_SECS\<close> stands in for a missing argument.
\<close>

definition useWatch_effect :: "number \<Rightarrow> useWatch_args \<Rightarrow> bool \<Rightarrow> watch_effect hook \<Rightarrow> watch_effect hook" where
  "useWatch_effect DEFAULT_POLL_RATE_SECS a onlyOps s =
     (let i = started s;
          s1 = s\<lparr>effects := (effects s)(i :=
                   \<lparr>cancel = False, updates = updatesState s, promise = NotRun,
                    args = a,
                    pollRate = (case pollRate_arg a of None \<Rightarrow> DEFAULT_POLL_RATE_SECS | Some p \<Rightarrow> p),
                    ops = onlyOps, closing = False\<rparr>),
                 started := Suc i\<rparr>
      in open_resume (open_start i) i s1)"

definition no_args :: useWatch_args where
  "no_args = \<lparr>filter_arg = None, ids_arg = None, display_arg = None, pollRate_arg = None\<rparr>"

definition useWatch_init :: "watch_effect hook" where
  "useWatch_init =
     \<lparr>data = initial_data, updatesState = 0,
      effects = (\<lambda>i. \<lparr>cancel = False, updates = 0, promise = NotRun,
                      args = no_args, pollRate = NaN, ops = False, closing = False\<rparr>),
      started = 0, calls = [], date = []\<rparr>"

text \<open>
  What happens to a hook instance: React commits a render with new dependencies (the
  arguments and the \<^verbatim>\<open>ops\<close> flag of the context), or unmounts, as for \<^verbatim>\<open>useGrid\<close>,
  and then the \<^verbatim>\<open>close()\<close> of the cleanup goes on if the promise has settled; the
  read, the \<^verbatim>\<open>make\<close> or the awaited \<^verbatim>\<open>close\<close> of run \<open>i\<close> settles; the watch of run
  \<open>i\<close> calls the callback registered with \<^verbatim>\<open>changed\<close>; time passes.
\<close>

datatype watch_event =
    WCommit useWatch_args bool
  | WUnmount
  | ReadSettled nat "string + HGrid"
  | MakeSettled nat "string + HGrid"
  | CloseSettled nat "string + unit"
  | Notify nat
  | Tick string

fun useWatch_step :: "number \<Rightarrow> watch_effect hook \<Rightarrow> watch_event \<Rightarrow> watch_effect hook" where
  "useWatch_step D s (WCommit a onlyOps) =
     close_waiting (started s)
       (useWatch_effect D a onlyOps
          (last_cleanup useWatch_cleanup (\<lambda>j s. cancel (effects s j)) (started s) s))"
| "useWatch_step D s WUnmount =
     close_waiting (started s)
       (last_cleanup useWatch_cleanup (\<lambda>j s. cancel (effects s j)) (started s) s)"
| "useWatch_step D s (ReadSettled i r) =
     (if promise (effects s i) = Pending AwaitRead
      then open_resume (open_after_read r i) i s else s)"
| "useWatch_step D s (MakeSettled i r) =
     (if promise (effects s i) = Pending AwaitMake
      then open_resume (open_after_make D r i) i s else s)"
| "useWatch_step D s (CloseSettled i r) =
     (if promise (effects s i) = Pending AwaitClose
      then open_resume (open_after_close r i) i s else s)"
| "useWatch_step D s (Notify i) =
     (if WatchChanged i \<in> set (calls s) then forceUpdate i s else s)"
| "useWatch_step D s (Tick t) = s\<lparr>date := t\<rparr>"

definition useWatch_run :: "number \<Rightarrow> watch_event list \<Rightarrow> watch_effect hook" where
  "useWatch_run D evs = foldl (useWatch_step D) useWatch_init evs"

section \<open>useWatch, the variant that keeps its result in React state\<close>

text \<open>
  The other source file of \<^verbatim>\<open>useWatch\<close> holds \<^verbatim>\<open>grid\<close>, \<^verbatim>\<open>isLoading\<close>, \<^verbatim>\<open>loads\<close> and
  \<^verbatim>\<open>error\<close> in \<^verbatim>\<open>useState\<close> cells (here the fields of \<open>data\<close>, written by the setters).
  A run of its effect also closes over the \<^verbatim>\<open>loads\<close> variable of its render
  (\<^verbatim>\<open>let [loads, setLoads] = useState(0)\<close>).
\<close>

record state_effect = watch_effect +
  loads_var :: nat

text \<open>\<^verbatim>\<open>setLoads(++loads)\<close>\<close>

definition setLoads_incr :: "nat \<Rightarrow> state_effect hook \<Rightarrow> state_effect hook" where
  "setLoads_incr i s =
     (let l = Suc (loads_var (effects s i))
      in s\<lparr>effects := (effects s)(i := (effects s i)\<lparr>loads_var := l\<rparr>),
            data := (data s)\<lparr>loads := l\<rparr>\<rparr>)"

text \<open>
  Inside \<^verbatim>\<open>if (!ids)\<close>, once \<^verbatim>\<open>ids\<close> has been assigned the grid \<open>g\<close>:
  \<^verbatim>\<open>if (cancel) { return }  setGrid(ids); setIsLoading(false); setLoads(++loads)\<close>, and
  on to \<^verbatim>\<open>make\<close>.
\<close>

definition useStateWatch_resolved ::
  "HGrid \<Rightarrow> nat \<Rightarrow> state_effect hook \<Rightarrow> stretch_end \<times> state_effect hook" where
  "useStateWatch_resolved g i s =
     (if cancel (effects s i) then (Complete (Return Undef), s)
      else open_make (IdGrid g) i
             (setLoads_incr i (s\<lparr>data := (data s)\<lparr>grid := g, isLoading := False\<rparr>\<rparr>)))"

text \<open>\<^verbatim>\<open>open\<close> from its start: \<^verbatim>\<open>setIsLoading(true)\<close>, then the same \<^verbatim>\<open>if (!ids)\<close>.\<close>

definition useStateWatch_start :: "nat \<Rightarrow> state_effect hook \<Rightarrow> stretch_end \<times> state_effect hook" where
  "useStateWatch_start i s =
     (let s1 = s\<lparr>data := (data s)\<lparr>isLoading := True\<rparr>\<rparr>;
          a = args (effects s1 i)
      in if falsy_ids (ids_arg a)
         then (if truthy_string (filter_arg a)
               then open_read (or_string (filter_arg a) []) i s1
               else useStateWatch_resolved new_HGrid i s1)
         else (case ids_arg a of
                 Some x \<Rightarrow> open_make x i s1
               | None \<Rightarrow> useStateWatch_resolved new_HGrid i s1))"

definition useStateWatch_after_read ::
  "string + HGrid \<Rightarrow> nat \<Rightarrow> state_effect hook \<Rightarrow> stretch_end \<times> state_effect hook" where
  "useStateWatch_after_read r i s =
     (case r of
        Inl err \<Rightarrow> (Complete (Throw err), s)
      | Inr g \<Rightarrow> useStateWatch_resolved g i s)"

text \<open>
  After \<^verbatim>\<open>make\<close>: \<^verbatim>\<open>if (cancel) { await watch.close(); return watch }
  watch.pollRate = pollRate || DEFAULT_POLL_RATE_SECS;
  watch.changed({ callback: (): void => setUpdates(++updates) });
  setGrid(watch.grid); setUpdates(++updates); return watch\<close>.
\<close>

definition useStateWatch_after_make ::
  "number \<Rightarrow> string + HGrid \<Rightarrow> nat \<Rightarrow> state_effect hook \<Rightarrow> stretch_end \<times> state_effect hook" where
  "useStateWatch_after_make DEFAULT_POLL_RATE_SECS r i s =
     (case r of
        Inl err \<Rightarrow> (Complete (Throw err), s)
      | Inr g \<Rightarrow>
          if cancel (effects s i) then (Suspend AwaitClose, emit (WatchClose i) s)
          else
            (let p = pollRate (effects s i);
                 s1 = emit (WatchSetPollRate i (if truthy_number p then p else DEFAULT_POLL_RATE_SECS)) s;
                 s2 = emit (WatchChanged i) s1;
                 s3 = emit (WatchGetGrid i) s2
             in (Complete (Return TheWatch),
                 forceUpdate i (s3\<lparr>data := (data s3)\<lparr>grid := g\<rparr>\<rparr>))))"

text \<open>
  \<^verbatim>\<open>catch (err) { if (!cancel) { setError(err) } }\<close> is \<open>open_catch\<close>, and
  \<^verbatim>\<open>finally { if (!cancel) { setIsLoading(false); setLoads(++loads) } }\<close>:
\<close>

definition useStateWatch_finally :: "nat \<Rightarrow> state_effect hook \<Rightarrow> completion \<times> state_effect hook" where
  "useStateWatch_finally i s =
     (Normal,
      if \<not> cancel (effects s i)
      then setLoads_incr i (s\<lparr>data := (data s)\<lparr>isLoading := False\<rparr>\<rparr>)
      else s)"

definition useStateWatch_resume ::
  "(state_effect hook \<Rightarrow> stretch_end \<times> state_effect hook) \<Rightarrow> nat \<Rightarrow> state_effect hook \<Rightarrow> state_effect hook" where
  "useStateWatch_resume body i s =
     settle_close i (async_resume body (open_catch i) (useStateWatch_finally i) i s)"

text \<open>
  The effect, closing over \<^verbatim>\<open>loads\<close> and \<^verbatim>\<open>updates\<close> of the render. Its cleanup,
  \<^verbatim>\<open>cancel = true; setIsLoading(false); setError(undefined); close()\<close>, is
  \<open>useWatch_cleanup\<close>.
\<close>

definition useStateWatch_effect :: "number \<Rightarrow> useWatch_args \<Rightarrow> bool \<Rightarrow> state_effect hook \<Rightarrow> state_effect hook" where
  "useStateWatch_effect DEFAULT_POLL_RATE_SECS a onlyOps s =
     (let i = started s;
          s1 = s\<lparr>effects := (effects s)(i :=
                   \<lparr>cancel = False, updates = updatesState s, promise = NotRun,
                    args = a,
                    pollRate = (case pollRate_arg a of None \<Rightarrow> DEFAULT_POLL_RATE_SECS | Some p \<Rightarrow> p),
                    ops = onlyOps, closing = False, loads_var = loads (data s)\<rparr>),
                 started := Suc i\<rparr>
      in useStateWatch_resume (useStateWatch_start i) i s1)"

definition useStateWatch_init :: "state_effect hook" where
  "useStateWatch_init =
     \<lparr>data = initial_data, updatesState = 0,
      effects = (\<lambda>i. \<lparr>cancel = False, updates = 0, promise = NotRun,
                      args = no_args, pollRate = NaN, ops = False, closing = False,
                      loads_var = 0\<rparr>),
      started = 0, calls = [], date = []\<rparr>"

fun useStateWatch_step :: "number \<Rightarrow> state_effect hook \<Rightarrow> watch_event \<Rightarrow> state_effect hook" where
  "useStateWatch_step D s (WCommit a onlyOps) =
     close_waiting (started s)
       (useStateWatch_effect D a onlyOps
          (last_cleanup useWatch_cleanup (\<lambda>j s. cancel (effects s j)) (started s) s))"
| "useStateWatch_step D s WUnmount =
     close_waiting (started s)
       (last_cleanup useWatch_cleanup (\<lambda>j s. cancel (effects s j)) (started s) s)"
| "useStateWatch_step D s (ReadSettled i r) =
     (if promise (effects s i) = Pending AwaitRead
      then useStateWatch_resume (useStateWatch_after_read r i) i s else s)"
| "useStateWatch_step D s (MakeSettled i r) =
     (if promise (effects s i) = Pending AwaitMake
      then useStateWatch_resume (useStateWatch_after_make D r i) i s else s)"
| "useStateWatch_step D s (CloseSettled i r) =
     (if promise (effects s i) = Pending AwaitClose
      then useStateWatch_resume (open_after_close r i) i s else s)"
| "useStateWatch_step D s (Notify i) =
     (if WatchChanged i \<in> set (calls s) then forceUpdate i s else s)"
| "useStateWatch_step D s (Tick t) = s\<lparr>date := t\<rparr>"

definition useStateWatch_run :: "number \<Rightarrow> watch_event list \<Rightarrow> state_effect hook" where
  "useStateWatch_run D evs = foldl (useStateWatch_step D) useStateWatch_init evs"

section \<open>Record tags (useHaystackRecordTag.ts) and the mode dispatcher (hooks/resolveValue)\<close>

text \<open>
  \<^verbatim>\<open>isResolvableDict\<close>: \<^verbatim>\<open>valueIsKind<HDict>(value, Kind.Dict) && value?.has('meta') &&
  !!value?.get<HDict>('meta')?.has('resolveType')\<close>. A \<^verbatim>\<open>meta\<close> tag that is not a dict
  has no method \<^verbatim>\<open>has\<close>, and the call throws a TypeError: the result \<open>None\<close>.
\<close>

definition isResolvableDict :: "HVal option \<Rightarrow> bool option" where
  "isResolvableDict v =
     (case v of
        Some (HDict d) \<Rightarrow>
          (if dict_has d ''meta''
           then (case dict_get d ''meta'' of
                   Some (HDict m) \<Rightarrow> Some (dict_has m ''resolveType'')
                 | _ \<Rightarrow> None)
           else Some False)
      | _ \<Rightarrow> Some False)"

text \<open>\<^verbatim>\<open>value?.meta?.tag\<close> of a resolvable dict.\<close>

definition meta_tag :: "HVal option \<Rightarrow> string \<Rightarrow> HVal option" where
  "meta_tag v k =
     (case v of
        Some (HDict d) \<Rightarrow>
          (case dict_get d ''meta'' of
             Some (HDict m) \<Rightarrow> dict_get m k
           | _ \<Rightarrow> None)
      | _ \<Rightarrow> None)"

text \<open>\<^verbatim>\<open>isResolvable(value, resolveType)\<close>:
  \<^verbatim>\<open>isResolvableDict(value) && value?.meta?.resolveType.value === resolveType\<close>.\<close>

definition isResolvable :: "HVal option \<Rightarrow> string \<Rightarrow> bool option" where
  "isResolvable v resolveType =
     (case isResolvableDict v of
        None \<Rightarrow> None
      | Some False \<Rightarrow> Some False
      | Some True \<Rightarrow>
          Some (case meta_tag v ''resolveType'' of
                  None \<Rightarrow> False
                | Some t \<Rightarrow> value_of t = JString resolveType))"

definition isResolvablePoint :: "HVal option \<Rightarrow> bool option" where
  "isResolvablePoint v = isResolvable v ''point''"

text \<open>\<^verbatim>\<open>isResolvableTag\<close>:
  \<^verbatim>\<open>isResolvable(value, 'tag') && valueIsKind(value?.meta?.readTag, Kind.Str)\<close>.\<close>

definition isResolvableTag :: "HVal option \<Rightarrow> bool option" where
  "isResolvableTag v =
     (case isResolvable v ''tag'' of
        None \<Rightarrow> None
      | Some False \<Rightarrow> Some False
      | Some True \<Rightarrow>
          Some (case meta_tag v ''readTag'' of Some (HStr t) \<Rightarrow> True | _ \<Rightarrow> False))"

text \<open>\<^verbatim>\<open>record?.id\<close> of an optional record, as a haystack value and as a JavaScript value.\<close>

definition record_id :: "HVal option \<Rightarrow> HVal option" where
  "record_id v = (case v of Some (HDict d) \<Rightarrow> dict_get d ''id'' | _ \<Rightarrow> None)"

definition js_of :: "HVal option \<Rightarrow> jsval" where
  "js_of v = (case v of None \<Rightarrow> Undefined | Some x \<Rightarrow> JVal x)"

definition js_value_of :: "HVal option \<Rightarrow> jsval" where
  "js_value_of v = (case v of None \<Rightarrow> Undefined | Some x \<Rightarrow> value_of x)"

text \<open>
  \<^verbatim>\<open>useWriteHaystackRecordTag(id, tag)\<close>: no writer unless \<^verbatim>\<open>id && tag\<close>; the writer
  evaluates \<^verbatim>\<open>read(id==<id>).diff({<tag>:<val>}).commit\<close> for a value and
  \<^verbatim>\<open>read(id==<id>).diff({-<tag>}).commit\<close> for \<^verbatim>\<open>null\<close> or no value. \<^verbatim>\<open>toAxon\<close> of
  haystack-core is a parameter.
\<close>

definition useWriteHaystackRecordTag ::
  "(HVal \<Rightarrow> string) \<Rightarrow> HVal option \<Rightarrow> string option \<Rightarrow> (HVal option \<Rightarrow> call) option" where
  "useWriteHaystackRecordTag toAxon rid tag =
     (case rid of
        None \<Rightarrow> None
      | Some r \<Rightarrow>
          (if truthy_string tag
           then Some (\<lambda>val.
             ExtEval
               (case val of
                  Some v \<Rightarrow>
                    ''read(id=='' @ toAxon r @ '').diff({'' @ or_string tag [] @ '':'' @ toAxon v
                      @ ''}).commit''
                | None \<Rightarrow>
                    ''read(id=='' @ toAxon r @ '').diff({-'' @ or_string tag [] @ ''}).commit''))
           else None))"

text \<open>
  \<^verbatim>\<open>useReadHaystackRecordTag(originalRecord, tag = '', pollRate)\<close>, given what its
  \<^verbatim>\<open>useWatch({ ids: originalRecord?.id, pollRate })\<close> returns: the tag of the original
  record while the watch is loading, of the first row of the watched grid afterwards.
\<close>

definition first_row :: "HGrid \<Rightarrow> HVal option" where
  "first_row g = (case g of [] \<Rightarrow> None | r # rs \<Rightarrow> Some (HDict r))"

definition get_tag :: "HVal option \<Rightarrow> string \<Rightarrow> HVal option" where
  "get_tag v k = (case v of Some (HDict d) \<Rightarrow> dict_get d k | _ \<Rightarrow> None)"

definition useReadHaystackRecordTag ::
  "HVal option \<Rightarrow> string option \<Rightarrow> GridData \<Rightarrow> HVal option \<times> HVal option" where
  "useReadHaystackRecordTag originalRecord tag w =
     (let t = (case tag of None \<Rightarrow> [] | Some x \<Rightarrow> x)
      in if isLoading w
         then (get_tag originalRecord t, originalRecord)
         else (get_tag (first_row (grid w)) t, first_row (grid w)))"

text \<open>
  \<^verbatim>\<open>useHaystackRecordTag(originalRecord, tagName, pollRate)\<close>: what it reads, and the
  request its writer makes, \<^verbatim>\<open>useWriteHaystackRecordTag(originalRecord?.id, tagName)\<close>
  (the writer then echoes the value into the hook's state).
\<close>

definition useHaystackRecordTag_read ::
  "HVal option \<Rightarrow> string option \<Rightarrow> GridData \<Rightarrow> HVal option \<times> HVal option" where
  "useHaystackRecordTag_read originalRecord tagName w =
     useReadHaystackRecordTag originalRecord tagName w"

definition useHaystackRecordTag_write ::
  "(HVal \<Rightarrow> string) \<Rightarrow> HVal option \<Rightarrow> string option \<Rightarrow> (HVal option \<Rightarrow> call) option" where
  "useHaystackRecordTag_write toAxon originalRecord tagName =
     useWriteHaystackRecordTag toAxon (record_id originalRecord) tagName"

text \<open>
  \<^verbatim>\<open>useHaystackPoint(originaryPoint, pollRate, writeOptions)\<close>, the writer it returns:
  with \<^verbatim>\<open>write = useWriteHaystackPoint(originaryPoint?.id, writeOptions)\<close> it is
  \<^verbatim>\<open>write ? async (val, options) => { const result = await write?.(val, options);
  setCurrentValue(val); return result } : undefined\<close>. Given here by the request it
  makes (it then echoes the value into the hook's state).
\<close>

definition useHaystackPoint_write ::
  "HVal option \<Rightarrow> jsobject option \<Rightarrow> (jsval \<Rightarrow> jsobject option \<Rightarrow> call) option" where
  "useHaystackPoint_write originaryPoint writeOptions =
     (case useWriteHaystackPoint (js_of (record_id originaryPoint)) writeOptions of
        None \<Rightarrow> None
      | Some write' \<Rightarrow> Some (\<lambda>val options. write' val options))"

text \<open>
  \<^verbatim>\<open>resolveDefaultPointWriteOpt\<close>: \<^verbatim>\<open>{ who: meta?.writeWho?.value, duration:
  meta?.writeDuration, level: meta?.writeLevel?.value }\<close>.
\<close>

definition resolveDefaultPointWriteOpt :: "HVal option \<Rightarrow> jsobject" where
  "resolveDefaultPointWriteOpt v =
     [(''who'', js_value_of (meta_tag v ''writeWho'')),
      (''duration'', js_of (meta_tag v ''writeDuration'')),
      (''level'', js_value_of (meta_tag v ''writeLevel''))]"

text \<open>
  The tag name \<^verbatim>\<open>useResolveHaystackValue\<close> hands to \<^verbatim>\<open>useHaystackRecordTag\<close>:
  \<^verbatim>\<open>isTag ? resolvable.meta.readTag.value : undefined\<close>.
\<close>

definition readTag_name :: "HVal option \<Rightarrow> string option" where
  "readTag_name v = (case meta_tag v ''readTag'' of Some (HStr t) \<Rightarrow> Some t | _ \<Rightarrow> None)"

text \<open>
  \<^verbatim>\<open>useResolveHaystackValue(resolvable)\<close>, the second component of what it returns, as
  the request that writer makes: \<^verbatim>\<open>writePoint\<close> of \<^verbatim>\<open>useHaystackPoint(isPoint ?
  resolvable : undefined, pollTime, isPoint ? resolveDefaultPointWriteOpt(resolvable) :
  undefined)\<close> for a point, \<^verbatim>\<open>writeTag\<close> of \<^verbatim>\<open>useHaystackRecordTag(isTag ? resolvable :
  undefined, isTag ? resolvable.meta.readTag.value : undefined, pollTime)\<close> for a tag,
  \<^verbatim>\<open>undefined\<close> otherwise. \<open>None\<close> when a type guard throws.
\<close>

definition useResolveHaystackValue_write ::
  "(HVal \<Rightarrow> string) \<Rightarrow> HVal option \<Rightarrow> (HVal option \<Rightarrow> jsobject option \<Rightarrow> call) option option" where
  "useResolveHaystackValue_write toAxon resolvable =
     (case (isResolvablePoint resolvable, isResolvableTag resolvable) of
        (Some isPoint, Some isTag) \<Rightarrow>
          (let writePoint =
                 useHaystackPoint_write
                   (if isPoint then resolvable else None)
                   (if isPoint then Some (resolveDefaultPointWriteOpt resolvable) else None);
               writeTag =
                 useHaystackRecordTag_write toAxon
                   (if isTag then resolvable else None)
                   (if isTag then readTag_name resolvable else None)
           in Some (if isPoint then map_option (\<lambda>w val options. w (js_of val) options) writePoint
                    else if isTag then map_option (\<lambda>w val options. w val) writeTag
                    else None))
      | _ \<Rightarrow> None)"

text \<open>
  The first and third components for a tag, given what the watch of
  \<^verbatim>\<open>useHaystackRecordTag\<close> returns (before any echo of a written value).
\<close>

definition useResolveHaystackValue_readTag ::
  "HVal option \<Rightarrow> GridData \<Rightarrow> (HVal option \<times> HVal option) option" where
  "useResolveHaystackValue_readTag resolvable w =
     (case isResolvableTag resolvable of
        Some True \<Rightarrow> Some (useHaystackRecordTag_read resolvable (readTag_name resolvable) w)
      | _ \<Rightarrow> None)"

section \<open>Vocabulary of the properties\<close>

text \<open>
  Every run of the effect but the last one has had its cleanup called: React calls the
  function an effect returned before it runs the effect again.
\<close>

definition stale_cancelled :: "('a effect_scheme) hook \<Rightarrow> bool" where
  "stale_cancelled s = (\<forall>j. Suc j < started s \<longrightarrow> cancel (effects s j))"

text \<open>The run of the effect an event of \<^verbatim>\<open>useWatch\<close> resumes or notifies, if any.\<close>

fun event_run :: "watch_event \<Rightarrow> nat option" where
  "event_run (ReadSettled i r) = Some i"
| "event_run (MakeSettled i r) = Some i"
| "event_run (CloseSettled i r) = Some i"
| "event_run (Notify i) = Some i"
| "event_run (WCommit a onlyOps) = None"
| "event_run WUnmount = None"
| "event_run (Tick t) = None"

text \<open>Whether a hook has called \<^verbatim>\<open>make\<close> on the client.\<close>

fun is_make :: "call \<Rightarrow> bool" where
  "is_make (WatchMake b l x) = True"
| "is_make _ = False"

definition makes_watch :: "'e hook \<Rightarrow> bool" where
  "makes_watch s = (filter is_make (calls s) \<noteq> [])"

text \<open>
  Rounds of \<^verbatim>\<open>useGrid\<close> in which every run of the effect settles, with the results
  \<open>rs\<close> in turn, before the next one starts; \<open>n\<close> is the number of the first run.
\<close>

fun settled_rounds :: "(string + HGrid) list \<Rightarrow> nat \<Rightarrow> grid_event list" where
  "settled_rounds [] n = []"
| "settled_rounds (r # rs) n = GCommit None # GetGridSettled n r # settled_rounds rs (Suc n)"

text \<open>Inputs the properties are tried on.\<close>

definition ids_example :: useWatch_args where
  "ids_example =
     \<lparr>filter_arg = None, ids_arg = Some (IdArray [HRef ''p1'']), display_arg = None,
      pollRate_arg = None\<rparr>"

definition filter_example :: useWatch_args where
  "filter_example =
     \<lparr>filter_arg = Some ''point'', ids_arg = None, display_arg = None, pollRate_arg = None\<rparr>"

definition negative_example :: useWatch_args where
  "negative_example =
     \<lparr>filter_arg = None, ids_arg = Some (IdArray [HRef ''p1'']), display_arg = None,
      pollRate_arg = Some (Num (- 1))\<rparr>"

definition grid_a :: HGrid where
  "grid_a = [[(''id'', HRef ''a'')]]"

definition grid_b :: HGrid where
  "grid_b = [[(''id'', HRef ''b'')]]"

text \<open>A record whose metadata names one tag to read and another to write.\<close>

definition tag_example :: HVal where
  "tag_example =
     HDict [(''id'', HRef ''p1''),
            (''precision'', HNum 1 []),
            (''meta'', HDict [(''resolveType'', HStr ''tag''),
                              (''readTag'', HStr ''precision''),
                              (''writeTag'', HStr ''precisionSp'')])]"

text \<open>General write options of a point hook, and the options of one call of its writer.\<close>

definition general_example :: jsobject where
  "general_example =
     [(''who'', JString ''ann''), (''duration'', Undefined), (''level'', JNumber (Num 10))]"

definition options_example :: jsobject where
  "options_example = [(''level'', JNumber (Num 8))]"


text \<open>
  Property \<open>k\<close> of the object that the writer \<^verbatim>\<open>useHaystackPoint\<close> returns hands to
  \<^verbatim>\<open>pointWrite\<close>, when there is a writer.
\<close>

definition written ::
  "HVal option \<Rightarrow> jsobject option \<Rightarrow> jsval \<Rightarrow> jsobject option \<Rightarrow> string \<Rightarrow> jsval option" where
  "written originaryPoint writeOptions val options k =
     map_option (\<lambda>w. get_prop (request_of (w val options)) k)
       (useHaystackPoint_write originaryPoint writeOptions)"

text \<open>A point, and options of a call whose \<^verbatim>\<open>level\<close> is \<^verbatim>\<open>undefined\<close>.\<close>

definition point_example :: HVal where
  "point_example = HDict [(''id'', HRef ''p1''), (''curVal'', HNum 20 [])]"

definition undefined_level_example :: jsobject where
  "undefined_level_example = [(''level'', Undefined)]"

section \<open>Evaluation and frame lemmas\<close>

lemmas useGrid_defs =
  useGrid_effect_def async_resume_def doGetGrid_start_def doGetGrid_resume_def
  doGetGrid_catch_def doGetGrid_finally_def useGrid_cleanup_def last_cleanup_def
  forceUpdate_def emit_def set_promise_def

lemmas useWatch_defs =
  useWatch_effect_def open_resume_def async_resume_def open_start_def open_make_def
  open_read_def open_resolved_def open_after_read_def open_after_make_def
  open_after_close_def open_catch_def open_finally_def close_resume_def
  useWatch_cleanup_def settle_close_def close_waiting_def last_cleanup_def forceUpdate_def
  emit_def set_promise_def

lemmas useStateWatch_defs =
  useStateWatch_effect_def useStateWatch_resume_def async_resume_def
  useStateWatch_start_def open_make_def open_read_def useStateWatch_resolved_def
  useStateWatch_after_read_def useStateWatch_after_make_def open_after_close_def
  open_catch_def useStateWatch_finally_def setLoads_incr_def close_resume_def
  useWatch_cleanup_def settle_close_def close_waiting_def last_cleanup_def forceUpdate_def
  emit_def set_promise_def

lemmas run_defs =
  useGrid_run_def useWatch_run_def useStateWatch_run_def useGrid_init_def
  useWatch_init_def useStateWatch_init_def initial_data_def new_HGrid_def no_args_def
  watch_label_def or_string_def is_pending_def

subsection \<open>Objects\<close>

lemma has_own_map_of: "has_own ys k \<longleftrightarrow> map_of (rev ys) k \<noteq> None"
  by (simp add: has_own_def map_of_eq_None_iff)

lemma get_prop_append:
  "get_prop (xs @ ys) k = (if has_own ys k then get_prop ys k else get_prop xs k)"
  by (cases "map_of (rev ys) k") (simp_all add: has_own_map_of get_prop_def map_add_def)

lemma get_prop_Nil: "get_prop [] k = Undefined"
  by (simp add: get_prop_def)

lemma has_own_simps:
  "has_own [] k = False"
  "has_own ((a, v) # xs) k = (k = a \<or> has_own xs k)"
  "has_own (xs @ ys) k = (has_own xs k \<or> has_own ys k)"
  by (auto simp: has_own_def)

lemma get_prop_Cons:
  "get_prop ((a, v) # xs) k =
     (if has_own xs k then get_prop xs k else if k = a then v else Undefined)"
  using get_prop_append [of "[(a, v)]" xs k] by (simp add: get_prop_def)

subsection \<open>Superseded runs are cancelled\<close>

text \<open>
  Whatever happens to a hook, in whatever order, every run of its effect but the last
  has its \<^verbatim>\<open>cancel\<close> flag set.
\<close>

lemma useGrid_stale_step: "stale_cancelled s \<Longrightarrow> stale_cancelled (useGrid_step s ev)"
  by (cases ev)
     (auto simp: stale_cancelled_def useGrid_defs Let_def less_Suc_eq
           split: option.splits nat.splits sum.splits)

lemma useGrid_stale_run: "stale_cancelled (useGrid_run evs)"
proof (induction evs rule: rev_induct)
  case Nil
  show ?case by (simp add: useGrid_run_def useGrid_init_def stale_cancelled_def)
next
  case (snoc ev evs)
  then show ?case by (simp add: useGrid_run_def useGrid_stale_step)
qed

lemma useWatch_stale_commit:
  "stale_cancelled s \<Longrightarrow> stale_cancelled (useWatch_step D s (WCommit a b))"
  by (auto simp: stale_cancelled_def useWatch_defs Let_def less_Suc_eq
           split: option.splits nat.splits sum.splits promise.splits settled.splits)

lemma useWatch_stale_unmount:
  "stale_cancelled s \<Longrightarrow> stale_cancelled (useWatch_step D s WUnmount)"
  by (auto simp: stale_cancelled_def useWatch_defs Let_def less_Suc_eq
           split: option.splits nat.splits sum.splits promise.splits settled.splits)

lemma useWatch_stale_read:
  "stale_cancelled s \<Longrightarrow> stale_cancelled (useWatch_step D s (ReadSettled i r))"
  by (auto simp: stale_cancelled_def useWatch_defs Let_def less_Suc_eq
           split: option.splits nat.splits sum.splits promise.splits settled.splits)

lemma useWatch_stale_make:
  "stale_cancelled s \<Longrightarrow> stale_cancelled (useWatch_step D s (MakeSettled i r))"
  by (auto simp: stale_cancelled_def useWatch_defs Let_def less_Suc_eq
           split: option.splits nat.splits sum.splits promise.splits settled.splits)

lemma useWatch_stale_close:
  "stale_cancelled s \<Longrightarrow> stale_cancelled (useWatch_step D s (CloseSettled i r))"
  by (auto simp: stale_cancelled_def useWatch_defs Let_def less_Suc_eq
           split: option.splits nat.splits sum.splits promise.splits settled.splits)

lemma useWatch_stale_step: "stale_cancelled s \<Longrightarrow> stale_cancelled (useWatch_step D s ev)"
proof (cases ev)
  case (Notify i)
  then show "stale_cancelled s \<Longrightarrow> ?thesis"
    by (auto simp: stale_cancelled_def forceUpdate_def Let_def)
next
  case (Tick t)
  then show "stale_cancelled s \<Longrightarrow> ?thesis"
    by (auto simp: stale_cancelled_def)
qed (simp_all only: useWatch_stale_commit useWatch_stale_unmount useWatch_stale_read
       useWatch_stale_make useWatch_stale_close)

lemma useWatch_stale_run: "stale_cancelled (useWatch_run D evs)"
proof (induction evs rule: rev_induct)
  case Nil
  show ?case by (simp add: useWatch_run_def useWatch_init_def stale_cancelled_def)
next
  case (snoc ev evs)
  then show ?case by (simp add: useWatch_run_def useWatch_stale_step)
qed

section \<open>One-shot queries and writers\<close>

text \<open>
  \<^bold>\<open>C10.\<close> With an empty list of ids (when not only ops are used) the query function of
  \<^verbatim>\<open>useReadByIds\<close>, and with an empty filter that of \<^verbatim>\<open>useReadByFilter\<close> (in either
  mode), resolves to \<^verbatim>\<open>new HGrid()\<close>, the grid with no rows, and makes no call on the
  client.
\<close>

theorem empty_query_makes_no_request:
  "useReadByIds_getGrid build False [] = Resolve new_HGrid
   \<and> useReadByFilter_getGrid onlyOps [] = Resolve new_HGrid
   \<and> \<not> makes_request (useReadByIds_getGrid build False [])
   \<and> \<not> makes_request (useReadByFilter_getGrid onlyOps [])
   \<and> new_HGrid = []"
  by (simp add: useReadByIds_getGrid_def useReadByFilter_getGrid_def new_HGrid_def)

text \<open>
  The object a point writer hands to \<^verbatim>\<open>pointWrite\<close>, for the helper
  \<^verbatim>\<open>useWriteHaystackPoint\<close> and for the writer \<^verbatim>\<open>useHaystackPoint\<close> returns, which
  exists exactly when the point has an id.
\<close>

lemma useWriteHaystackPoint_request:
  assumes "useWriteHaystackPoint pid generalOptions = Some w"
  shows "w val options =
           OpsPointWrite
             ([(''id'', pid),
               (''level'', coalesce (opt_prop generalOptions ''level'') (JNumber (Num 17))),
               (''who'', opt_prop generalOptions ''who''),
               (''duration'', opt_prop generalOptions ''duration'')]
              @ spread options
              @ [(''val'', val)])"
  using assms by (auto simp: useWriteHaystackPoint_def split: if_splits)

lemma useHaystackPoint_write_request:
  assumes "useHaystackPoint_write originaryPoint writeOptions = Some w"
  shows "w val options =
           OpsPointWrite
             ([(''id'', js_of (record_id originaryPoint)),
               (''level'', coalesce (opt_prop writeOptions ''level'') (JNumber (Num 17))),
               (''who'', opt_prop writeOptions ''who''),
               (''duration'', opt_prop writeOptions ''duration'')]
              @ spread options
              @ [(''val'', val)])"
proof -
  from assms obtain u where u: "useWriteHaystackPoint (js_of (record_id originaryPoint)) writeOptions = Some u"
    and w: "w = (\<lambda>val options. u val options)"
    by (auto simp: useHaystackPoint_write_def split: option.splits)
  show ?thesis
    unfolding w by (rule useWriteHaystackPoint_request [OF u])
qed

lemma useHaystackPoint_write_exists:
  "(useHaystackPoint_write originaryPoint writeOptions \<noteq> None) = (record_id originaryPoint \<noteq> None)"
  by (cases "record_id originaryPoint")
     (simp_all add: useHaystackPoint_write_def useWriteHaystackPoint_def js_of_def)

text \<open>
  \<^bold>\<open>C8.\<close> It is not so that the level of a point write is the one of the hook's
  general options whenever the options of the call give no level: when they have the
  property \<^verbatim>\<open>level\<close> with the value \<^verbatim>\<open>undefined\<close>, the request of the writer
  \<^verbatim>\<open>useHaystackPoint\<close> returns carries \<^verbatim>\<open>level: undefined\<close>, neither the general level
  10 nor 17.
\<close>

theorem point_write_precedence_counterexample:
  "written (Some point_example) (Some general_example) (JVal (HNum 21 []))
       (Some undefined_level_example) ''level'' = Some Undefined
   \<and> opt_prop (Some general_example) ''level'' = JNumber (Num 10)
   \<and> \<not> (written (Some point_example) (Some general_example) (JVal (HNum 21 []))
            (Some undefined_level_example) ''level'' = Some (opt_prop (Some general_example) ''level'')
         \<or> written (Some point_example) (Some general_example) (JVal (HNum 21 []))
            (Some undefined_level_example) ''level'' = Some (JNumber (Num 17)))"
  by (simp add: written_def useHaystackPoint_write_def useWriteHaystackPoint_def point_example_def
        general_example_def undefined_level_example_def record_id_def dict_get_def js_of_def
        opt_prop_def get_prop_def spread_def coalesce_def nullish_def)

text \<open>
  \<^bold>\<open>C8\<close>, amended. In the object the writer \<^verbatim>\<open>useHaystackPoint\<close> returns hands to
  \<^verbatim>\<open>pointWrite\<close>, each of \<^verbatim>\<open>level\<close>, \<^verbatim>\<open>who\<close> and \<^verbatim>\<open>duration\<close> that the options of
  the call have as a property is taken from them, whatever its value. A \<^verbatim>\<open>level\<close>
  they do not have is the one of the hook's general options when that is neither
  \<^verbatim>\<open>undefined\<close> nor \<^verbatim>\<open>null\<close>, and 17 otherwise; \<^verbatim>\<open>who\<close> and \<^verbatim>\<open>duration\<close> they do not
  have are those of the general options.
\<close>

theorem point_write_precedence:
  assumes "useHaystackPoint_write originaryPoint writeOptions = Some w"
  shows "(\<forall>k \<in> {''level'', ''who'', ''duration''}.
            has_own (spread options) k \<longrightarrow>
            get_prop (request_of (w val options)) k = get_prop (spread options) k)
       \<and> (\<not> has_own (spread options) ''level'' \<and> \<not> nullish (opt_prop writeOptions ''level'') \<longrightarrow>
            get_prop (request_of (w val options)) ''level'' = opt_prop writeOptions ''level'')
       \<and> (\<not> has_own (spread options) ''level'' \<and> nullish (opt_prop writeOptions ''level'') \<longrightarrow>
            get_prop (request_of (w val options)) ''level'' = JNumber (Num 17))
       \<and> (\<not> has_own (spread options) ''who'' \<longrightarrow>
            get_prop (request_of (w val options)) ''who'' = opt_prop writeOptions ''who'')
       \<and> (\<not> has_own (spread options) ''duration'' \<longrightarrow>
            get_prop (request_of (w val options)) ''duration'' = opt_prop writeOptions ''duration'')"
  unfolding useHaystackPoint_write_request [OF assms]
  by (simp add: get_prop_append get_prop_Cons get_prop_Nil has_own_simps coalesce_def)

text \<open>
  A writer with general level 10 writes at level 8 when the call asks for 8, at level
  10 when the call has no options, and with \<^verbatim>\<open>level: undefined\<close> when the call has that
  property; a writer without general options writes at level 17.
\<close>

theorem point_write_precedence_witness:
  "\<exists>w u. useHaystackPoint_write (Some point_example) (Some general_example) = Some w
     \<and> useHaystackPoint_write (Some point_example) None = Some u
     \<and> has_own (spread (Some options_example)) ''level''
     \<and> get_prop (request_of (w (JVal (HNum 21 [])) (Some options_example))) ''level'' = JNumber (Num 8)
     \<and> \<not> has_own (spread (Some options_example)) ''who''
     \<and> get_prop (request_of (w (JVal (HNum 21 [])) (Some options_example))) ''who'' = JString ''ann''
     \<and> \<not> has_own (spread (Some options_example)) ''duration''
     \<and> get_prop (request_of (w (JVal (HNum 21 [])) (Some options_example))) ''duration'' = Undefined
     \<and> \<not> has_own (spread None) ''level'' \<and> \<not> nullish (opt_prop (Some general_example) ''level'')
     \<and> get_prop (request_of (w (JVal (HNum 21 [])) None)) ''level'' = JNumber (Num 10)
     \<and> nullish (opt_prop None ''level'')
     \<and> get_prop (request_of (u (JVal (HNum 21 [])) None)) ''level'' = JNumber (Num 17)
     \<and> has_own (spread (Some undefined_level_example)) ''level''
     \<and> get_prop (request_of (w (JVal (HNum 21 [])) (Some undefined_level_example))) ''level'' = Undefined"
proof -
  obtain w where w: "useHaystackPoint_write (Some point_example) (Some general_example) = Some w"
    by (simp add: useHaystackPoint_write_def useWriteHaystackPoint_def point_example_def
          record_id_def dict_get_def js_of_def)
  obtain u where u: "useHaystackPoint_write (Some point_example) None = Some u"
    by (simp add: useHaystackPoint_write_def useWriteHaystackPoint_def point_example_def
          record_id_def dict_get_def js_of_def)
  have h: "has_own (spread (Some options_example)) ''level''"
     "\<not> has_own (spread (Some options_example)) ''who''"
     "\<not> has_own (spread (Some options_example)) ''duration''"
     "\<not> has_own (spread None) ''level''"
     "\<not> nullish (opt_prop (Some general_example) ''level'')"
     "nullish (opt_prop None ''level'')"
     "has_own (spread (Some undefined_level_example)) ''level''"
     "get_prop (spread (Some options_example)) ''level'' = JNumber (Num 8)"
     "get_prop (spread (Some undefined_level_example)) ''level'' = Undefined"
     "opt_prop (Some general_example) ''level'' = JNumber (Num 10)"
     "opt_prop (Some general_example) ''who'' = JString ''ann''"
     "opt_prop (Some general_example) ''duration'' = Undefined"
    by (simp_all add: spread_def options_example_def general_example_def undefined_level_example_def
          has_own_def nullish_def opt_prop_def get_prop_def)
  show ?thesis
    using point_write_precedence [OF w, of "Some options_example" "JVal (HNum 21 [])"]
          point_write_precedence [OF w, of None "JVal (HNum 21 [])"]
          point_write_precedence [OF w, of "Some undefined_level_example" "JVal (HNum 21 [])"]
          point_write_precedence [OF u, of None "JVal (HNum 21 [])"]
          w u h
    by auto
qed

section \<open>The mode dispatcher\<close>

lemma tag_not_point: "isResolvableTag r = Some True \<Longrightarrow> isResolvablePoint r = Some False"
  by (auto simp: isResolvableTag_def isResolvablePoint_def isResolvable_def
           split: option.splits bool.splits if_splits)

text \<open>
  \<^bold>\<open>C5.\<close> For a dict resolved as a tag, \<^verbatim>\<open>useResolveHaystackValue\<close> reads the tag named
  by \<^verbatim>\<open>readTag\<close>, and its writer commits to that same tag: the expression it evaluates
  is built from the id, the \<^verbatim>\<open>readTag\<close> name and the value only. The \<^verbatim>\<open>writeTag\<close> of the
  metadata is not looked at.
\<close>

theorem tag_write_uses_readTag:
  assumes "isResolvableTag r = Some True" and "record_id r = Some rid"
    and "readTag_name r = Some t" and "t \<noteq> []"
  shows "\<exists>w. useResolveHaystackValue_write toAxon r = Some (Some w)
           \<and> (\<forall>v options. w (Some v) options =
                 ExtEval (''read(id=='' @ toAxon rid @ '').diff({'' @ t @ '':'' @ toAxon v @ ''}).commit''))
           \<and> (\<forall>options. w None options =
                 ExtEval (''read(id=='' @ toAxon rid @ '').diff({-'' @ t @ ''}).commit''))
           \<and> useResolveHaystackValue_readTag r x =
                 Some (if isLoading x then (get_tag r t, r)
                       else (get_tag (first_row (grid x)) t, first_row (grid x)))"
  using assms tag_not_point [OF assms(1)]
  by (simp add: useResolveHaystackValue_write_def useHaystackRecordTag_write_def
        useWriteHaystackRecordTag_def or_string_def useResolveHaystackValue_readTag_def
        useHaystackRecordTag_read_def useReadHaystackRecordTag_def)

text \<open>
  The record \<open>tag_example\<close> asks for \<^verbatim>\<open>precision\<close> to be read and \<^verbatim>\<open>precisionSp\<close> to be
  written; its writer commits to \<^verbatim>\<open>precision\<close>.
\<close>

theorem tag_write_ignores_writeTag:
  "\<forall>toAxon.
     meta_tag (Some tag_example) ''writeTag'' = Some (HStr ''precisionSp'')
     \<and> isResolvableTag (Some tag_example) = Some True
     \<and> (\<exists>w. useResolveHaystackValue_write toAxon (Some tag_example) = Some (Some w)
           \<and> w (Some (HNum 2 [])) None =
               ExtEval (''read(id=='' @ toAxon (HRef ''p1'') @ '').diff({precision:''
                          @ toAxon (HNum 2 []) @ ''}).commit''))"
proof
  fix toAxon :: "HVal \<Rightarrow> string"
  have 1: "isResolvableTag (Some tag_example) = Some True"
    by (simp add: tag_example_def isResolvableTag_def isResolvable_def isResolvableDict_def
          meta_tag_def dict_has_def dict_get_def)
  have 2: "record_id (Some tag_example) = Some (HRef ''p1'')"
    by (simp add: tag_example_def record_id_def dict_get_def)
  have 3: "readTag_name (Some tag_example) = Some ''precision''"
    by (simp add: tag_example_def readTag_name_def meta_tag_def dict_get_def)
  have 4: "meta_tag (Some tag_example) ''writeTag'' = Some (HStr ''precisionSp'')"
    by (simp add: tag_example_def meta_tag_def dict_get_def)
  have 5: "''precision'' \<noteq> []"
    by simp
  from tag_write_uses_readTag [OF 1 2 3 5, where toAxon = toAxon and x = initial_data]
  obtain w where w: "useResolveHaystackValue_write toAxon (Some tag_example) = Some (Some w)"
    and v: "\<forall>v options. w (Some v) options =
                 ExtEval (''read(id=='' @ toAxon (HRef ''p1'') @ '').diff({'' @ ''precision''
                            @ '':'' @ toAxon v @ ''}).commit'')"
    by blast
  from v have "w (Some (HNum 2 [])) None =
      ExtEval (''read(id=='' @ toAxon (HRef ''p1'') @ '').diff({precision:''
                 @ toAxon (HNum 2 []) @ ''}).commit'')"
    by simp
  with 1 4 w show "meta_tag (Some tag_example) ''writeTag'' = Some (HStr ''precisionSp'')
     \<and> isResolvableTag (Some tag_example) = Some True
     \<and> (\<exists>w. useResolveHaystackValue_write toAxon (Some tag_example) = Some (Some w)
           \<and> w (Some (HNum 2 [])) None =
               ExtEval (''read(id=='' @ toAxon (HRef ''p1'') @ '').diff({precision:''
                          @ toAxon (HNum 2 []) @ ''}).commit''))"
    by blast
qed

section \<open>The result cell under overlapping runs\<close>

text \<open>
  \<^bold>\<open>C7.\<close> When \<^verbatim>\<open>getGrid\<close> rejects, or throws before it returns a promise, the promise
  of \<^verbatim>\<open>doGetGrid\<close> is still fulfilled: nothing is thrown on. For a run that is not
  cancelled the error is stored in \<^verbatim>\<open>error\<close>, \<^verbatim>\<open>grid\<close> is what it was, \<^verbatim>\<open>isLoading\<close>
  ends false and \<^verbatim>\<open>loads\<close> is one more.
\<close>

theorem rejected_getGrid_is_captured:
  "(promise (effects s i) = Pending AwaitGetGrid \<longrightarrow>
      promise (effects (useGrid_step s (GetGridSettled i (Inl err))) i) = Fulfilled Undef)
   \<and> (promise (effects s i) = Pending AwaitGetGrid \<and> \<not> cancel (effects s i) \<longrightarrow>
        error (data (useGrid_step s (GetGridSettled i (Inl err)))) = Some err
      \<and> grid (data (useGrid_step s (GetGridSettled i (Inl err)))) = grid (data s)
      \<and> isLoading (data (useGrid_step s (GetGridSettled i (Inl err)))) = False
      \<and> loads (data (useGrid_step s (GetGridSettled i (Inl err)))) = Suc (loads (data s)))
   \<and> promise (effects (useGrid_effect (Some err) s) (started s)) = Fulfilled Undef
   \<and> error (data (useGrid_effect (Some err) s)) = Some err
   \<and> grid (data (useGrid_effect (Some err) s)) = grid (data s)
   \<and> isLoading (data (useGrid_effect (Some err) s)) = False
   \<and> loads (data (useGrid_effect (Some err) s)) = Suc (loads (data s))"
  by (simp add: useGrid_defs Let_def)

text \<open>The first run of a hook, whose read fails with "not found".\<close>

theorem rejected_getGrid_is_captured_witness:
  "promise (effects (useGrid_run [GCommit None]) 0) = Pending AwaitGetGrid
   \<and> \<not> cancel (effects (useGrid_run [GCommit None]) 0)
   \<and> promise (effects (useGrid_run [GCommit None, GetGridSettled 0 (Inl ''not found'')]) 0)
       = Fulfilled Undef
   \<and> data (useGrid_run [GCommit None, GetGridSettled 0 (Inl ''not found'')]) =
       \<lparr>grid = [], isLoading = False, loads = 1, error = Some ''not found''\<rparr>"
proof -
  let ?s = "useGrid_run [GCommit None]"
  let ?t = "useGrid_step ?s (GetGridSettled 0 (Inl ''not found''))"
  have p: "promise (effects ?s 0) = Pending AwaitGetGrid"
    and c: "\<not> cancel (effects ?s 0)"
    and d: "data ?s = \<lparr>grid = [], isLoading = True, loads = 0, error = None\<rparr>"
    by (simp_all add: run_defs useGrid_defs Let_def)
  have r: "useGrid_run [GCommit None, GetGridSettled 0 (Inl ''not found'')] = ?t"
    by (simp add: useGrid_run_def)
  from rejected_getGrid_is_captured [of ?s 0 "''not found''"] p c d
  show ?thesis
    unfolding r by (cases "data ?t") simp
qed

text \<open>
  \<^bold>\<open>C2.\<close> A run of the effect whose \<^verbatim>\<open>cancel\<close> flag is set when what it awaits settles
  (or when its watch notifies) leaves the result cell as it is, in \<^verbatim>\<open>useGrid\<close> and in
  \<^verbatim>\<open>useWatch\<close>. Since React calls the cleanup of a run before the next one starts, this
  holds of every run but the most recently started one, after any sequence of events:
  also when a newer run has already finished.
\<close>

theorem superseded_run_never_merges:
  "(cancel (effects s i) \<longrightarrow> data (useGrid_step s (GetGridSettled i r)) = data s)
   \<and> (Suc i < started (useGrid_run evs) \<longrightarrow>
        data (useGrid_step (useGrid_run evs) (GetGridSettled i r)) = data (useGrid_run evs))
   \<and> (event_run ev = Some i \<and> cancel (effects w i) \<longrightarrow> data (useWatch_step D w ev) = data w)
   \<and> (event_run ev = Some i \<and> Suc i < started (useWatch_run D wevs) \<longrightarrow>
        data (useWatch_step D (useWatch_run D wevs) ev) = data (useWatch_run D wevs))"
proof -
  have g: "cancel (effects s i) \<Longrightarrow> data (useGrid_step s (GetGridSettled i r)) = data s"
    for s i r
    by (auto simp: useGrid_defs Let_def split: sum.splits)
  have w: "event_run ev = Some i \<Longrightarrow> cancel (effects w i) \<Longrightarrow> data (useWatch_step D w ev) = data w"
    for w
    by (cases ev)
       (auto simp: useWatch_defs Let_def split: sum.splits promise.splits settled.splits)
  have gi: "Suc i < started (useGrid_run evs) \<Longrightarrow> cancel (effects (useGrid_run evs) i)"
    using useGrid_stale_run [of evs] by (simp add: stale_cancelled_def)
  have wi: "Suc i < started (useWatch_run D wevs) \<Longrightarrow> cancel (effects (useWatch_run D wevs) i)"
    using useWatch_stale_run [of D wevs] by (simp add: stale_cancelled_def)
  show ?thesis
    using g w gi wi by blast
qed

text \<open>
  Two runs, the second of which finishes with \<open>grid_b\<close> before the first one's read or
  \<^verbatim>\<open>make\<close> comes back with \<open>grid_a\<close>: the result stays \<open>grid_b\<close>. And a run that is
  unmounted before its read or \<^verbatim>\<open>make\<close> comes back.
\<close>

theorem superseded_run_never_merges_witness:
  "cancel (effects (useGrid_run [GCommit None, GUnmount]) 0)
   \<and> data (useGrid_step (useGrid_run [GCommit None, GUnmount]) (GetGridSettled 0 (Inr grid_a)))
       = \<lparr>grid = [], isLoading = False, loads = 0, error = None\<rparr>
   \<and> Suc 0 < started (useGrid_run [GCommit None, GCommit None, GetGridSettled 1 (Inr grid_b)])
   \<and> data (useGrid_step (useGrid_run [GCommit None, GCommit None, GetGridSettled 1 (Inr grid_b)])
              (GetGridSettled 0 (Inr grid_a)))
       = \<lparr>grid = grid_b, isLoading = False, loads = 1, error = None\<rparr>
   \<and> event_run (MakeSettled 0 (Inr grid_a)) = Some 0
   \<and> cancel (effects (useWatch_run (Num 5) [WCommit ids_example True, WUnmount]) 0)
   \<and> data (useWatch_step (Num 5) (useWatch_run (Num 5) [WCommit ids_example True, WUnmount])
              (MakeSettled 0 (Inr grid_a)))
       = \<lparr>grid = [], isLoading = False, loads = 0, error = None\<rparr>
   \<and> Suc 0 < started (useWatch_run (Num 5)
                         [WCommit ids_example True, WCommit ids_example True,
                          MakeSettled 1 (Inr grid_b)])
   \<and> data (useWatch_step (Num 5)
              (useWatch_run (Num 5)
                 [WCommit ids_example True, WCommit ids_example True,
                  MakeSettled 1 (Inr grid_b)])
              (MakeSettled 0 (Inr grid_a)))
       = \<lparr>grid = grid_b, isLoading = False, loads = 1, error = None\<rparr>"
proof -
  let ?s = "useGrid_run [GCommit None, GUnmount]"
  let ?t = "useGrid_run [GCommit None, GCommit None, GetGridSettled 1 (Inr grid_b)]"
  let ?w = "useWatch_run (Num 5) [WCommit ids_example True, WUnmount]"
  let ?v = "useWatch_run (Num 5)
              [WCommit ids_example True, WCommit ids_example True, MakeSettled 1 (Inr grid_b)]"
  have s: "cancel (effects ?s 0)"
    "data ?s = \<lparr>grid = [], isLoading = False, loads = 0, error = None\<rparr>"
    by (simp_all add: run_defs useGrid_defs Let_def)
  have t: "Suc 0 < started ?t"
    "data ?t = \<lparr>grid = grid_b, isLoading = False, loads = 1, error = None\<rparr>"
    by (simp_all add: run_defs useGrid_defs Let_def)
  have w: "cancel (effects ?w 0)"
    "data ?w = \<lparr>grid = [], isLoading = False, loads = 0, error = None\<rparr>"
    by (simp_all add: run_defs ids_example_def useWatch_defs Let_def)
  have v: "Suc 0 < started ?v"
    "data ?v = \<lparr>grid = grid_b, isLoading = False, loads = 1, error = None\<rparr>"
    by (simp_all add: run_defs ids_example_def useWatch_defs Let_def)
  have e: "event_run (MakeSettled 0 (Inr grid_a)) = Some 0"
    by simp
  show ?thesis
    using superseded_run_never_merges
            [of ?s 0 "Inr grid_a" "[GCommit None, GCommit None, GetGridSettled 1 (Inr grid_b)]"
                "MakeSettled 0 (Inr grid_a)" ?w "Num 5"
                "[WCommit ids_example True, WCommit ids_example True, MakeSettled 1 (Inr grid_b)]"]
          s t w v e
    by simp
qed




section \<open>The count of loads\<close>

text \<open>
  In \<^verbatim>\<open>useGrid\<close>, \<^verbatim>\<open>loads\<close> goes up by one when \<^verbatim>\<open>getGrid\<close> settles for a run that is not
  cancelled, and stays as it is when it settles for a cancelled one, at an unmount and
  when a run starts. After \<open>k\<close> rounds that each settle before the next starts it is
  \<open>k\<close>, whatever the results were.
\<close>

lemma useGrid_loads_step:
  "loads (data (useGrid_step s (GetGridSettled i r)))
     = (if promise (effects s i) = Pending AwaitGetGrid \<and> \<not> cancel (effects s i)
        then Suc (loads (data s)) else loads (data s))"
  "loads (data (useGrid_step s GUnmount)) = loads (data s)"
  "loads (data (useGrid_step s (GCommit None))) = loads (data s)"
  by (auto simp: useGrid_defs Let_def split: sum.splits nat.splits)

lemma useGrid_round:
  "loads (data (useGrid_step (useGrid_step s (GCommit None)) (GetGridSettled (started s) r)))
     = Suc (loads (data s))
   \<and> started (useGrid_step (useGrid_step s (GCommit None)) (GetGridSettled (started s) r))
     = Suc (started s)"
  by (auto simp: useGrid_defs Let_def split: sum.splits nat.splits)

lemma useGrid_rounds:
  "n = started s \<Longrightarrow>
   loads (data (foldl useGrid_step s (settled_rounds rs n))) = loads (data s) + length rs"
proof (induction rs arbitrary: s n)
  case Nil
  show ?case by simp
next
  case (Cons r rs)
  let ?t = "useGrid_step (useGrid_step s (GCommit None)) (GetGridSettled (started s) r)"
  have t: "loads (data ?t) = Suc (loads (data s))" "Suc n = started ?t"
    using Cons.prems useGrid_round [of s r] by simp_all
  have "foldl useGrid_step s (settled_rounds (r # rs) n)
          = foldl useGrid_step ?t (settled_rounds rs (Suc n))"
    using Cons.prems by (simp del: useGrid_step.simps)
  then show ?case
    using Cons.IH [OF t(2)] t(1) by simp
qed

lemma useGrid_counts_settled_rounds:
  "loads (data (useGrid_run (settled_rounds rs 0))) = length rs"
  using useGrid_rounds [of 0 useGrid_init rs]
  by (simp add: useGrid_run_def useGrid_init_def initial_data_def)

text \<open>
  So does the \<^verbatim>\<open>useWatch\<close> that keeps its result in a ref: one run that resolves a
  filter and then makes its watch counts one load.
\<close>

lemma useWatch_counts_filter_once:
  "loads (data (useWatch_run D
      [WCommit filter_example b, ReadSettled 0 (Inr g), MakeSettled 0 (Inr g')])) = 1"
  by (simp add: run_defs filter_example_def useWatch_defs Let_def)

text \<open>
  \<^bold>\<open>C3.\<close> The \<^verbatim>\<open>useWatch\<close> that keeps its result in React state counts such a run
  twice: \<^verbatim>\<open>setLoads(++loads)\<close> runs once when the filter has been read and once more in
  the \<^verbatim>\<open>finally\<close> block. After one run that was never cancelled, \<^verbatim>\<open>loads\<close> is 2.
\<close>

theorem state_watch_counts_filter_twice:
  "loads (data (useStateWatch_run D
      [WCommit filter_example b, ReadSettled 0 (Inr g), MakeSettled 0 (Inr g')])) = 2"
  by (simp add: run_defs filter_example_def useStateWatch_defs Let_def)

section \<open>The watch of a run\<close>

text \<open>
  \<^bold>\<open>C1.\<close> A hook that is unmounted (or whose dependencies change) while \<^verbatim>\<open>make\<close> is in
  flight closes the watch twice once \<^verbatim>\<open>make\<close> has made it: \<^verbatim>\<open>open\<close> closes it in its
  cancelled branch and returns it, and the \<^verbatim>\<open>close()\<close> of the cleanup, which was waiting
  for that promise, closes what it is given.
\<close>

theorem teardown_during_make_closes_twice:
  "calls (useWatch_run D
      [WCommit ids_example b, WUnmount, MakeSettled 0 (Inr g), CloseSettled 0 (Inr ())])
     = [WatchMake b ''useWatch@'' (IdArray [HRef ''p1'']), WatchClose 0, WatchClose 0]
   \<and> count_list (calls (useWatch_run D
        [WCommit ids_example b, WUnmount, MakeSettled 0 (Inr g), CloseSettled 0 (Inr ())]))
        (WatchClose 0) = 2"
  by (simp add: run_defs ids_example_def useWatch_defs Let_def)

text \<open>
  When \<^verbatim>\<open>make\<close> comes back before the hook is unmounted, the watch is set up and then
  closed once.
\<close>

lemma teardown_after_make_closes_once:
  "calls (useWatch_run D [WCommit ids_example b, MakeSettled 0 (Inr g), WUnmount])
     = [WatchMake b ''useWatch@'' (IdArray [HRef ''p1'']), WatchSetPollRate 0 D,
        WatchChanged 0, WatchGetGrid 0, WatchClose 0]"
  by (simp add: run_defs ids_example_def useWatch_defs Let_def)

text \<open>
  When the dependencies change after \<^verbatim>\<open>make\<close> has come back, the next run's read is
  issued before the watch of the run before it is closed: the \<^verbatim>\<open>close()\<close> of the
  cleanup stands behind an \<^verbatim>\<open>await\<close>.
\<close>

lemma next_effect_calls_before_close:
  "calls (useWatch_run D
      [WCommit ids_example True, MakeSettled 0 (Inr g), WCommit filter_example True])
     = [WatchMake True ''useWatch@'' (IdArray [HRef ''p1'']), WatchSetPollRate 0 D,
        WatchChanged 0, WatchGetGrid 0, OpsRead ''point'', WatchClose 0]"
  by (simp add: run_defs ids_example_def filter_example_def useWatch_defs Let_def)

text \<open>
  \<^bold>\<open>C4.\<close> It is not so that \<^verbatim>\<open>useWatch\<close> without ids and without a filter shows an empty
  grid and makes no watch: it calls \<^verbatim>\<open>make\<close>.
\<close>

theorem empty_ids_still_make_a_watch_counterexample:
  "\<not> (grid (data (useWatch_run (Num 5) [WCommit no_args False])) = new_HGrid
       \<and> \<not> makes_watch (useWatch_run (Num 5) [WCommit no_args False]))"
  by (simp add: run_defs makes_watch_def useWatch_defs Let_def)

text \<open>
  \<^bold>\<open>C4\<close>, amended. Without ids and without a filter, the effect of \<^verbatim>\<open>useWatch\<close> reads
  nothing, sets the grid to the empty grid and \<^verbatim>\<open>isLoading\<close> to false, and calls
  \<^verbatim>\<open>make\<close> with that empty grid as the ids; it then waits for \<^verbatim>\<open>make\<close>. When the read
  of a filter comes back with the empty grid for a run that is not cancelled, the same
  happens.
\<close>

theorem empty_ids_still_make_a_watch:
  "(falsy_ids (ids_arg a) \<and> \<not> truthy_string (filter_arg a) \<longrightarrow>
      grid (data (useWatch_effect D a b s)) = new_HGrid
    \<and> \<not> isLoading (data (useWatch_effect D a b s))
    \<and> calls (useWatch_effect D a b s)
        = calls s @ [WatchMake b (watch_label a (date s)) (IdGrid new_HGrid)]
    \<and> promise (effects (useWatch_effect D a b s) (started s)) = Pending AwaitMake)
   \<and> (promise (effects t i) = Pending AwaitRead \<and> \<not> cancel (effects t i) \<longrightarrow>
      grid (data (useWatch_step D t (ReadSettled i (Inr new_HGrid)))) = new_HGrid
    \<and> \<not> isLoading (data (useWatch_step D t (ReadSettled i (Inr new_HGrid))))
    \<and> calls (useWatch_step D t (ReadSettled i (Inr new_HGrid)))
        = calls t @ [WatchMake (ops (effects t i)) (watch_label (args (effects t i)) (date t))
                       (IdGrid new_HGrid)]
    \<and> promise (effects (useWatch_step D t (ReadSettled i (Inr new_HGrid))) i) = Pending AwaitMake)"
  by (auto simp: useWatch_defs Let_def is_pending_def split: option.splits)

text \<open>The first run of a hook without arguments, and of one whose filter matches nothing.\<close>

theorem empty_ids_still_make_a_watch_witness:
  "falsy_ids (ids_arg no_args) \<and> \<not> truthy_string (filter_arg no_args)
   \<and> grid (data (useWatch_effect (Num 5) no_args False useWatch_init)) = []
   \<and> \<not> isLoading (data (useWatch_effect (Num 5) no_args False useWatch_init))
   \<and> calls (useWatch_effect (Num 5) no_args False useWatch_init)
       = [WatchMake False ''useWatch@'' (IdGrid [])]
   \<and> promise (effects (useWatch_run (Num 5) [WCommit filter_example False]) 0) = Pending AwaitRead
   \<and> \<not> cancel (effects (useWatch_run (Num 5) [WCommit filter_example False]) 0)
   \<and> grid (data (useWatch_step (Num 5) (useWatch_run (Num 5) [WCommit filter_example False])
                     (ReadSettled 0 (Inr new_HGrid)))) = []
   \<and> calls (useWatch_step (Num 5) (useWatch_run (Num 5) [WCommit filter_example False])
                (ReadSettled 0 (Inr new_HGrid)))
       = [RecordReadByFilter ''point'', WatchMake False ''point'' (IdGrid [])]"
proof -
  let ?s = "useWatch_run (Num 5) [WCommit filter_example False]"
  have a: "falsy_ids (ids_arg no_args)" "\<not> truthy_string (filter_arg no_args)"
    "watch_label no_args (date useWatch_init) = ''useWatch@''" "calls useWatch_init = []"
    by (simp_all add: no_args_def useWatch_init_def watch_label_def or_string_def)
  have s: "promise (effects ?s 0) = Pending AwaitRead" "\<not> cancel (effects ?s 0)"
    "calls ?s = [RecordReadByFilter ''point'']" "ops (effects ?s 0) = False"
    "watch_label (args (effects ?s 0)) (date ?s) = ''point''"
    by (simp_all add: run_defs filter_example_def useWatch_defs Let_def)
  show ?thesis
    using empty_ids_still_make_a_watch [of no_args "Num 5" False useWatch_init ?s 0] a s
    by (simp add: new_HGrid_def)
qed

section \<open>The poll rate of a watch\<close>

text \<open>
  The \<^verbatim>\<open>useWatch\<close> that keeps its result in a ref sets the poll rate of the watch it
  made to \<^verbatim>\<open>pollRate\<close> when that is greater than zero and to the default otherwise, so
  to the default for every \<^verbatim>\<open>pollRate\<close> that is zero or less.
\<close>

lemma le_zero_not_gt_zero: "le_zero p \<Longrightarrow> \<not> gt_zero p"
  by (cases p) auto

lemma useWatch_pollRate:
  assumes "promise (effects s i) = Pending AwaitMake" and "\<not> cancel (effects s i)"
  shows "calls (useWatch_step D s (MakeSettled i (Inr g)))
           = calls s
             @ [WatchSetPollRate i
                  (if gt_zero (pollRate (effects s i)) then pollRate (effects s i) else D),
                WatchChanged i, WatchGetGrid i]
             @ (if closing (effects s i) then [WatchClose i] else [])"
  using assms by (simp add: useWatch_defs Let_def is_pending_def)

lemma useWatch_pollRate_captured:
  "pollRate (effects (useWatch_effect D a b s) (started s))
     = (case pollRate_arg a of None \<Rightarrow> D | Some p \<Rightarrow> p)"
  by (auto simp: useWatch_defs Let_def is_pending_def split: option.splits)

text \<open>
  \<^bold>\<open>C6.\<close> The \<^verbatim>\<open>useWatch\<close> that keeps its result in React state sets
  \<^verbatim>\<open>pollRate || DEFAULT_POLL_RATE_SECS\<close>: a negative \<^verbatim>\<open>pollRate\<close> is truthy and is handed
  to the watch as it is. With \<^verbatim>\<open>pollRate: -1\<close> the poll rate of the watch is set to -1,
  whatever the default.
\<close>

theorem state_watch_keeps_negative_pollRate:
  "le_zero (Num (- 1))
   \<and> calls (useStateWatch_run D [WCommit negative_example b, MakeSettled 0 (Inr g)])
     = [WatchMake b ''useWatch@'' (IdArray [HRef ''p1'']), WatchSetPollRate 0 (Num (- 1)),
        WatchChanged 0, WatchGetGrid 0]"
  by (simp add: run_defs negative_example_def useStateWatch_defs Let_def)

end
